theory Spec2Isabelle
  imports Complex_Main "HOL-Library.Multiset"
begin

section \<open>Data model\<close>

text \<open>
  The triplet scorer of \<^verbatim>\<open>main_eval.py\<close> works on a feature matrix (a 2-dimensional
  tensor, one row per stimulus) and an integer array of triplets. Tensor entries are
  modelled as real numbers: every statement below is about the arithmetic the code
  asks for, not about the rounding of 32-bit floats. A feature matrix is the list of its
  rows, a triplet is a 3-tuple of (signed) integers, as \<^verbatim>\<open>load_triplets\<close> produces them
  with \<^verbatim>\<open>astype(int)\<close>.
\<close>

type_synonym vec = "real list"
type_synonym features = "vec list"
type_synonym triplet = "int \<times> int \<times> int"

text \<open>
  The exceptions a run of the scorer can end with. \<open>IndexError\<close> is what indexing a
  tensor out of range raises, \<open>ZeroDivisionError\<close> what Python's \<^verbatim>\<open>/\<close> raises on a zero
  divisor. \<open>InvalidInput\<close> is the error kind of the specification; no statement of the
  source raises it.
\<close>

datatype error = IndexError | ZeroDivisionError | InvalidInput

section \<open>Indexing the feature matrix\<close>

text \<open>
  \<^verbatim>\<open>features[i]\<close> on a tensor with \<open>N\<close> rows: an index in \<open>[0, N)\<close> selects that row, an
  index in \<open>[-N, 0)\<close> counts from the end, anything else raises \<open>IndexError\<close>.
\<close>

definition in_bounds :: "features \<Rightarrow> int \<Rightarrow> bool" where
  "in_bounds F i \<longleftrightarrow> - int (length F) \<le> i \<and> i < int (length F)"

definition row :: "features \<Rightarrow> int \<Rightarrow> error + vec" where
  "row F i =
     (let n = int (length F)
      in if 0 \<le> i \<and> i < n then Inr (F ! nat i)
         else if - n \<le> i \<and> i < 0 then Inr (F ! nat (n + i))
         else Inl IndexError)"

section \<open>Similarities of a triplet\<close>

text \<open>
  \<^verbatim>\<open>F.cosine_similarity(x, y, dim=0)\<close> is a function of the tensor library. It is modelled by
  the formula of the library's documentation, in which each norm is bounded from below by
  \<open>\<epsilon>\<close>: \<open>x \<cdot> y / (max \<parallel>x\<parallel> \<epsilon> * max \<parallel>y\<parallel> \<epsilon>)\<close> with the default \<open>\<epsilon> = 10\<^sup>-\<^sup>8\<close>. The library
  evaluates the formula in 32-bit floats, where the similarity of a vector to itself can
  round to a value just below \<open>1\<close>; here it is evaluated on the reals.
\<close>

definition dot :: "vec \<Rightarrow> vec \<Rightarrow> real" where
  "dot x y = sum_list (map2 (*) x y)"

definition l2_norm :: "vec \<Rightarrow> real" where
  "l2_norm x = sqrt (dot x x)"

definition eps :: real where
  "eps = 1 / 10 ^ 8"

definition cosine_similarity :: "vec \<Rightarrow> vec \<Rightarrow> real" where
  "cosine_similarity x y = dot x y / (max (l2_norm x) eps * max (l2_norm y) eps)"

text \<open>
  \<^verbatim>\<open>
  def compute_similarities(triplet, pairs):
      similarities = torch.tensor(
          [F.cosine_similarity(triplet[i], triplet[j], dim=0) for i, j in pairs])
      return similarities
  \<close>
\<close>

definition compute_similarities :: "vec list \<Rightarrow> (nat \<times> nat) list \<Rightarrow> real list" where
  "compute_similarities triplet ps =
     map (\<lambda>(i, j). cosine_similarity (triplet ! i) (triplet ! j)) ps"

section \<open>Odd-one-out predictions\<close>

text \<open>
  \<^verbatim>\<open>torch.argmax\<close> returns the index of the first maximal entry: a scan that replaces the
  best index only on a strictly larger value. The scorer calls it on three similarities;
  on an empty tensor the library raises, and the value \<open>0\<close> given here is never used.
\<close>

fun argmax_scan :: "nat \<Rightarrow> real \<Rightarrow> nat \<Rightarrow> real list \<Rightarrow> nat" where
  "argmax_scan best bv i [] = best"
| "argmax_scan best bv i (x # xs) =
     (if bv < x then argmax_scan i x (Suc i) xs else argmax_scan best bv (Suc i) xs)"

definition argmax :: "real list \<Rightarrow> nat" where
  "argmax xs = (case xs of [] \<Rightarrow> 0 | x # rest \<Rightarrow> argmax_scan 0 x 1 rest)"

text \<open>\<^verbatim>\<open>F.softmax(similarities, dim=0)\<close>\<close>

definition softmax :: "real list \<Rightarrow> real list" where
  "softmax xs = map (\<lambda>x. exp x / sum_list (map exp xs)) xs"

text \<open>
  The constants of \<^verbatim>\<open>get_predictions\<close>: \<^verbatim>\<open>pairs = [(0, 1), (0, 2), (1, 2)]\<close> and
  \<^verbatim>\<open>indices = {0, 1, 2}\<close>.
\<close>

definition pairs :: "(nat \<times> nat) list" where
  "pairs = [(0, 1), (0, 2), (1, 2)]"

definition indices :: "nat list" where
  "indices = [0, 1, 2]"

text \<open>
  \<^verbatim>\<open>ooo_idx = indices.difference(most_sim_pair).pop()\<close>: the positions that are not in the
  pair, of which \<^verbatim>\<open>pop\<close> takes one. For each of the three pairs exactly one position is
  left.
\<close>

definition difference :: "nat list \<Rightarrow> nat \<times> nat \<Rightarrow> nat list" where
  "difference s p = filter (\<lambda>x. x \<noteq> fst p \<and> x \<noteq> snd p) s"

definition ooo_idx :: "nat \<times> nat \<Rightarrow> nat" where
  "ooo_idx most_sim_pair = hd (difference indices most_sim_pair)"

text \<open>
  \<^verbatim>\<open>
  def get_predictions(features, triplets):
      features = torch.from_numpy(features)
      pairs = [(0, 1), (0, 2), (1, 2)]
      indices = {0, 1, 2}
      choices, probas = [], []
      for i, j, k in triplets:
          triplet = torch.stack([features[i], features[j], features[k]])
          similarities = compute_similarities(triplet, pairs)
          most_sim_pair = pairs[torch.argmax(similarities).item()]
          ooo_idx = indices.difference(most_sim_pair).pop()
          choices.append(ooo_idx == 2)
          probas.append(F.softmax(similarities, dim=0).tolist())
      probas = torch.tensor(probas)
      return choices, probas
  \<close>
  The loop is a recursion over the triplets that carries the two lists; an
  \<open>IndexError\<close> of one of the three row reads ends it.
\<close>

fun predictions_loop ::
  "features \<Rightarrow> triplet list \<Rightarrow> bool list \<Rightarrow> real list list \<Rightarrow> error + (bool list \<times> real list list)"
where
  "predictions_loop F [] choices probas = Inr (choices, probas)"
| "predictions_loop F ((i, j, k) # ts) choices probas =
     (case row F i of Inl e \<Rightarrow> Inl e | Inr fi \<Rightarrow>
      case row F j of Inl e \<Rightarrow> Inl e | Inr fj \<Rightarrow>
      case row F k of Inl e \<Rightarrow> Inl e | Inr fk \<Rightarrow>
        (let triplet = [fi, fj, fk];
             similarities = compute_similarities triplet pairs;
             most_sim_pair = pairs ! argmax similarities;
             ooo = ooo_idx most_sim_pair
         in predictions_loop F ts (choices @ [ooo = 2]) (probas @ [softmax similarities])))"

definition get_predictions :: "features \<Rightarrow> triplet list \<Rightarrow> error + (bool list \<times> real list list)" where
  "get_predictions F triplets = predictions_loop F triplets [] []"

section \<open>Accuracy\<close>

text \<open>
  \<^verbatim>\<open>round(x, 4)\<close> on a float rounds to the nearest multiple of \<open>10\<^sup>-\<^sup>4\<close>, a tie going to
  the even multiple. On a float the tie is decided on the binary value of the quotient;
  here it is decided on the real quotient.
\<close>

definition round_half_even :: "real \<Rightarrow> int" where
  "round_half_even y =
     (let f = \<lfloor>y\<rfloor>; d = y - of_int f
      in if d < 1 / 2 then f
         else if 1 / 2 < d then f + 1
         else if even f then f else f + 1)"

definition py_round :: "real \<Rightarrow> nat \<Rightarrow> real" where
  "py_round x ndigits = of_int (round_half_even (x * 10 ^ ndigits)) / 10 ^ ndigits"

text \<open>\<^verbatim>\<open>sum(choices)\<close> on a list of booleans counts the entries that are \<open>True\<close>.\<close>

definition sum_bools :: "bool list \<Rightarrow> nat" where
  "sum_bools choices = sum_list (map of_bool choices)"

text \<open>
  \<^verbatim>\<open>def accuracy(choices): return round(sum(choices) / len(choices), 4)\<close>
\<close>

definition accuracy :: "bool list \<Rightarrow> error + real" where
  "accuracy choices =
     (if length choices = 0 then Inl ZeroDivisionError
      else Inr (py_round (real (sum_bools choices) / real (length choices)) 4))"

section \<open>Entropy\<close>

text \<open>
  \<^verbatim>\<open>
  def ventropy(probabilities):
      def entropy(p):
          return -(torch.where(p > 0.0, p * torch.log(p), 0)).sum()
      return vmap(entropy)(probabilities)
  \<close>
\<close>

definition entropy :: "real list \<Rightarrow> real" where
  "entropy p = - sum_list (map (\<lambda>x. if 0 < x then x * ln x else 0) p)"

definition ventropy :: "real list list \<Rightarrow> real list" where
  "ventropy probabilities = map entropy probabilities"

text \<open>
  The entropy as the specification words it: \<open>- \<Sum> p log p\<close> over the confidence values,
  a value \<open>p = 0\<close> contributing \<open>0\<close>.
\<close>

definition plogp :: "real \<Rightarrow> real" where
  "plogp x = (if x = 0 then 0 else x * ln x)"

definition shannon_entropy :: "real list \<Rightarrow> real" where
  "shannon_entropy p = - (\<Sum>x\<leftarrow>p. plogp x)"

section \<open>One evaluation run\<close>

text \<open>
  The scoring steps of \<^verbatim>\<open>evaluate\<close> for one model, once its features are extracted:
  \<^verbatim>\<open>
  choices, probas = get_predictions(features, triplets)
  acc = accuracy(choices)
  entropies = ventropy(probas)
  mean_entropy = entropies.mean().item()
  summary = {"model": model_name, "accuracy": acc,
             "mean_entropy": mean_entropy, "entropies": entropies.cpu().numpy()}
  \<close>
  \<^verbatim>\<open>mean\<close> is reached with at least one entropy only, since \<^verbatim>\<open>accuracy\<close> raises before
  it on an empty list.
\<close>

record summary =
  model :: string
  summary_accuracy :: real
  mean_entropy :: real
  entropies :: "real list"

definition tensor_mean :: "real list \<Rightarrow> real" where
  "tensor_mean xs = sum_list xs / real (length xs)"

definition score_model :: "string \<Rightarrow> features \<Rightarrow> triplet list \<Rightarrow> error + summary" where
  "score_model model_name F triplets =
     (case get_predictions F triplets of Inl e \<Rightarrow> Inl e | Inr (choices, probas) \<Rightarrow>
      case accuracy choices of Inl e \<Rightarrow> Inl e | Inr acc \<Rightarrow>
        (let es = ventropy probas
         in Inr \<lparr>model = model_name, summary_accuracy = acc,
                 mean_entropy = tensor_mean es, entropies = es\<rparr>))"

section \<open>The values of one loop iteration\<close>

text \<open>
  Names for what one iteration of the loop of \<^verbatim>\<open>get_predictions\<close> computes from a triplet
  whose three reads succeed: the row an index selects, the tensor \<^verbatim>\<open>similarities\<close>, and
  \<^verbatim>\<open>ooo_idx\<close>, the predicted odd-one-out position.
\<close>

definition the_row :: "features \<Rightarrow> int \<Rightarrow> vec" where
  "the_row F i = F ! nat (if i < 0 then int (length F) + i else i)"

definition triplet_in_bounds :: "features \<Rightarrow> triplet \<Rightarrow> bool" where
  "triplet_in_bounds F t = (case t of (i, j, k) \<Rightarrow> in_bounds F i \<and> in_bounds F j \<and> in_bounds F k)"

definition similarities_of :: "features \<Rightarrow> triplet \<Rightarrow> real list" where
  "similarities_of F t =
     (case t of (i, j, k) \<Rightarrow> compute_similarities [the_row F i, the_row F j, the_row F k] pairs)"

definition predicted_ooo :: "features \<Rightarrow> triplet \<Rightarrow> nat" where
  "predicted_ooo F t = ooo_idx (pairs ! argmax (similarities_of F t))"

section \<open>Confidence vectors\<close>

text \<open>
  The inputs the entropy properties are about: a vector of three non-negative
  confidences that sum to 1.
\<close>

definition distribution3 :: "real list \<Rightarrow> bool" where
  "distribution3 p \<longleftrightarrow> length p = 3 \<and> list_all (\<lambda>x. 0 \<le> x) p \<and> sum_list p = 1"

section \<open>The evaluation loop of the RSA script\<close>

text \<open>
  \<^verbatim>\<open>evaluate\<close> of \<^verbatim>\<open>main_model_sim_eval.py\<close> runs one iteration per pair of
  \<^verbatim>\<open>zip(model_cfg.names, model_cfg.sources)\<close>. The transformation matrices and the THINGS
  embeddings are nested dictionaries read as \<^verbatim>\<open>d[source][model_name][args.module]\<close>; a
  missing key at any of the three levels raises \<open>KeyError\<close>, which is \<open>None\<close> here.
\<close>

type_synonym 'a nested = "string \<rightharpoonup> (string \<rightharpoonup> (string \<rightharpoonup> 'a))"

definition lookup3 :: "'a nested \<Rightarrow> string \<Rightarrow> string \<Rightarrow> string \<Rightarrow> 'a option" where
  "lookup3 d a b c =
     (case d a of None \<Rightarrow> None | Some d1 \<Rightarrow> (case d1 b of None \<Rightarrow> None | Some d2 \<Rightarrow> d2 c))"

text \<open>
  \<^verbatim>\<open>model_features[source][model_name][args.module] = features\<close> on a
  \<^verbatim>\<open>defaultdict(lambda: defaultdict(dict))\<close>: missing levels are created empty.
\<close>

definition update3 :: "'a nested \<Rightarrow> string \<Rightarrow> string \<Rightarrow> string \<Rightarrow> 'a \<Rightarrow> 'a nested" where
  "update3 d a b c v =
     (let d1 = (case d a of None \<Rightarrow> Map.empty | Some m \<Rightarrow> m);
          d2 = (case d1 b of None \<Rightarrow> Map.empty | Some m \<Rightarrow> m)
      in d(a \<mapsto> d1(b \<mapsto> d2(c \<mapsto> v))))"

text \<open>The two \<^verbatim>\<open>UserWarning\<close>s of the loop, each naming the model it skips.\<close>

datatype warning = Missing_transform string | Missing_things_embedding string

text \<open>The command-line arguments the loop reads.\<close>

record args =
  use_transforms :: bool
  module :: string
  transform_type :: string
  dataset :: string
  category :: "string option"

text \<open>The record appended to \<^verbatim>\<open>results\<close>; the four correlation values are \<open>rsa_stats\<close>.\<close>

record 'r rsa_summary =
  rsa_model :: string
  rsa_stats :: 'r
  rsa_source :: string
  rsa_family :: string
  rsa_dataset :: string
  rsa_category :: "string option"
  rsa_transform :: bool
  rsa_transform_type :: "string option"

text \<open>
  What the loop calls outside this file: the steps from the top of the loop body to the
  extracted features (\<open>extract_features\<close>, given the model name, its source and the index \<open>i\<close> of
  \<^verbatim>\<open>model_cfg.modules[i]\<close>), the arithmetic applied to the features on the transform path,
  \<^verbatim>\<open>utils.evaluation.perform_rsa\<close> and \<^verbatim>\<open>utils.analyses.get_family_name\<close>. Extraction and
  RSA may raise; their exceptions are the values \<open>Inl e\<close>.
\<close>

record ('e, 'f, 'm, 'r) collaborators =
  extract_features :: "string \<Rightarrow> string \<Rightarrow> nat \<Rightarrow> 'e + 'f"
  apply_transform :: "'f \<Rightarrow> 'f \<Rightarrow> 'm \<Rightarrow> string \<Rightarrow> 'f"
  perform_rsa :: "'f \<Rightarrow> 'e + 'r"
  get_family_name :: "string \<Rightarrow> string"

record ('f, 'r) eval_state =
  results :: "'r rsa_summary list"
  warnings :: "warning list"
  model_features :: "'f nested"

text \<open>
  The end of an iteration that was not skipped:
  \<^verbatim>\<open>
  rsa_stats = utils.evaluation.perform_rsa(dataset=dataset, data_source=args.dataset,
                                           features=features)
  ...
  results.append(summary)
  model_features[source][model_name][args.module] = features
  \<close>
\<close>

definition append_summary ::
  "('e, 'f, 'm, 'r) collaborators \<Rightarrow> args \<Rightarrow> string \<Rightarrow> string \<Rightarrow> 'f \<Rightarrow> ('f, 'r) eval_state
     \<Rightarrow> 'e + ('f, 'r) eval_state" where
  "append_summary env a model_name source features st =
     (case perform_rsa env features of Inl e \<Rightarrow> Inl e | Inr stats \<Rightarrow>
        Inr (st\<lparr>results := results st @
                 [\<lparr>rsa_model = model_name, rsa_stats = stats, rsa_source = source,
                   rsa_family = get_family_name env model_name, rsa_dataset = dataset a,
                   rsa_category = category a, rsa_transform = use_transforms a,
                   rsa_transform_type =
                     (if use_transforms a then Some (transform_type a) else None)\<rparr>],
               model_features := update3 (model_features st) source model_name (module a) features\<rparr>))"

text \<open>
  One iteration of the loop. On the transform path,
  \<^verbatim>\<open>
  if args.use_transforms:
      try:
          transform = transforms[source][model_name][args.module]
      except KeyError:
          warnings.warn(message=..., category=UserWarning)
          continue
      try:
          things_features_current_model = things_features[source][model_name][args.module]
      except KeyError:
          warnings.warn(message=..., category=UserWarning)
          continue
      features = (features - things_features_current_model.mean()) / ...
  \<close>
  \<^verbatim>\<open>continue\<close> ends the iteration with the state as it is, but for the warning.
\<close>

definition evaluate_model ::
  "('e, 'f, 'm, 'r) collaborators \<Rightarrow> args \<Rightarrow> 'm nested \<Rightarrow> 'f nested \<Rightarrow> nat \<Rightarrow> string \<times> string
     \<Rightarrow> ('f, 'r) eval_state \<Rightarrow> 'e + ('f, 'r) eval_state" where
  "evaluate_model env a transforms things_features i p st =
     (case p of (model_name, source) \<Rightarrow>
      case extract_features env model_name source i of Inl e \<Rightarrow> Inl e | Inr features \<Rightarrow>
        if use_transforms a then
          (case lookup3 transforms source model_name (module a) of
             None \<Rightarrow> Inr (st\<lparr>warnings := warnings st @ [Missing_transform model_name]\<rparr>)
           | Some transform \<Rightarrow>
              (case lookup3 things_features source model_name (module a) of
                 None \<Rightarrow> Inr (st\<lparr>warnings := warnings st @ [Missing_things_embedding model_name]\<rparr>)
               | Some things_features_current_model \<Rightarrow>
                   append_summary env a model_name source
                     (apply_transform env features things_features_current_model transform
                        (transform_type a)) st))
        else append_summary env a model_name source features st)"

fun evaluate_loop ::
  "('e, 'f, 'm, 'r) collaborators \<Rightarrow> args \<Rightarrow> 'm nested \<Rightarrow> 'f nested \<Rightarrow> nat
     \<Rightarrow> (string \<times> string) list \<Rightarrow> ('f, 'r) eval_state \<Rightarrow> 'e + ('f, 'r) eval_state" where
  "evaluate_loop env a transforms things_features i [] st = Inr st"
| "evaluate_loop env a transforms things_features i (p # ps) st =
     (case evaluate_model env a transforms things_features i p st of
        Inl e \<Rightarrow> Inl e
      | Inr st' \<Rightarrow> evaluate_loop env a transforms things_features (Suc i) ps st')"

definition evaluate ::
  "('e, 'f, 'm, 'r) collaborators \<Rightarrow> args \<Rightarrow> 'm nested \<Rightarrow> 'f nested \<Rightarrow> string list \<Rightarrow> string list
     \<Rightarrow> 'e + ('f, 'r) eval_state" where
  "evaluate env a transforms things_features names sources =
     evaluate_loop env a transforms things_features 0 (zip names sources)
       \<lparr>results = [], warnings = [], model_features = Map.empty\<rparr>"

text \<open>
  The models of a run that are evaluated on the transform path, those with both lookups,
  and the warning a model without them is skipped with.
\<close>

definition has_lookups :: "args \<Rightarrow> 'm nested \<Rightarrow> 'f nested \<Rightarrow> string \<times> string \<Rightarrow> bool" where
  "has_lookups a transforms things_features p =
     (case p of (model_name, source) \<Rightarrow>
        lookup3 transforms source model_name (module a) \<noteq> None
        \<and> lookup3 things_features source model_name (module a) \<noteq> None)"

definition skip_warning :: "args \<Rightarrow> 'm nested \<Rightarrow> string \<times> string \<Rightarrow> warning" where
  "skip_warning a transforms p =
     (case p of (model_name, source) \<Rightarrow>
        if lookup3 transforms source model_name (module a) = None
        then Missing_transform model_name else Missing_things_embedding model_name)"

section \<open>The distance option of the layer evaluation\<close>

text \<open>
  \<^verbatim>\<open>parseargs\<close> of \<^verbatim>\<open>main_layer_eval.py\<close> declares
  \<^verbatim>\<open>
  aa("--distance", type=str, default="cosine", choices=["cosine", "euclidean"],
     help="distance function used to predict the odd-one-out")
  \<close>
  The option is absent from the command line (\<open>None\<close>) or given with a value; a value
  outside the choices makes the parser exit, which is the result \<open>None\<close>.
\<close>

definition distance_default :: string where
  "distance_default = ''cosine''"

definition distance_choices :: "string list" where
  "distance_choices = [''cosine'', ''euclidean'']"

definition parse_distance :: "string option \<Rightarrow> string option" where
  "parse_distance given =
     (case given of None \<Rightarrow> Some distance_default
      | Some v \<Rightarrow> if v \<in> set distance_choices then Some v else None)"

text \<open>
  Modelled from the spec: \<^verbatim>\<open>utils.evaluation.get_predictions\<close>, which
  \<^verbatim>\<open>main_layer_eval.py\<close> calls with \<^verbatim>\<open>args.distance\<close>, is not among the sources. The
  specification (section 4.1, step 1) has the pairwise similarity computed with a
  configurable function: cosine similarity, or Euclidean distance, for which lower
  distance is higher similarity and the sign is inverted. The most similar pair is then
  chosen as in step 2, by maximal similarity.
\<close>

definition euclidean_distance :: "vec \<Rightarrow> vec \<Rightarrow> real" where
  "euclidean_distance x y = l2_norm (map2 (-) x y)"

definition similarity :: "string \<Rightarrow> vec \<Rightarrow> vec \<Rightarrow> real" where
  "similarity distance x y =
     (if distance = ''euclidean'' then - euclidean_distance x y else cosine_similarity x y)"

definition compute_similarities_with :: "string \<Rightarrow> vec list \<Rightarrow> (nat \<times> nat) list \<Rightarrow> real list" where
  "compute_similarities_with distance triplet ps =
     map (\<lambda>(i, j). similarity distance (triplet ! i) (triplet ! j)) ps"

definition most_sim_pair_with :: "string \<Rightarrow> vec list \<Rightarrow> nat \<times> nat" where
  "most_sim_pair_with distance triplet =
     pairs ! argmax (compute_similarities_with distance triplet pairs)"

definition pair_distance :: "vec list \<Rightarrow> nat \<times> nat \<Rightarrow> real" where
  "pair_distance triplet p = euclidean_distance (triplet ! fst p) (triplet ! snd p)"

section \<open>Properties of rounding\<close>


lemma round_half_even_of_int: "round_half_even (of_int z) = z"
  by (simp add: round_half_even_def)

lemma round_half_even_close: "\<bar>of_int (round_half_even y) - y\<bar> \<le> 1 / 2"
  unfolding round_half_even_def Let_def
  by (auto simp: abs_if) linarith+

lemma py_round_close: "\<bar>py_round x n - x\<bar> \<le> 1 / (2 * 10 ^ n)"
proof -
  have p: "(0::real) < 10 ^ n" by simp
  have "\<bar>py_round x n - x\<bar> = \<bar>of_int (round_half_even (x * 10 ^ n)) - x * 10 ^ n\<bar> / 10 ^ n"
    unfolding py_round_def using p
    by (simp add: field_simps abs_divide flip: abs_mult)
  also have "\<dots> \<le> (1 / 2) / 10 ^ n"
    using round_half_even_close [of "x * 10 ^ n"] p
    by (intro divide_right_mono) auto
  finally show ?thesis by simp
qed

lemma sum_bools_all_True: "\<forall>b\<in>set choices. b \<Longrightarrow> sum_bools choices = length choices"
  by (induction choices) (auto simp: sum_bools_def)

lemma sum_bools_all_False: "\<forall>b\<in>set choices. \<not> b \<Longrightarrow> sum_bools choices = 0"
  by (induction choices) (auto simp: sum_bools_def)

lemma py_round_int: "py_round (of_int z) n = of_int z"
proof -
  have "of_int z * (10::real) ^ n = of_int (z * 10 ^ n)" by simp
  then have "round_half_even (of_int z * 10 ^ n) = z * 10 ^ n"
    using round_half_even_of_int by metis
  then show ?thesis by (simp add: py_round_def)
qed

section \<open>Accuracy of a correctness vector\<close>

text \<open>
  Claim C8. For every non-empty correctness vector, \<open>accuracy\<close> returns the mean of the
  vector rounded to 4 decimal places: a multiple of \<open>10\<^sup>-\<^sup>4\<close> at most \<open>1 / 20000\<close> away from
  the mean, whichever way a tie between two such multiples goes. It is exactly \<open>1\<close> when
  every entry is correct and exactly \<open>0\<close> when every entry is incorrect.
\<close>

theorem accuracy_is_rounded_mean:
  "choices \<noteq> [] \<Longrightarrow>
     (\<exists>a z. accuracy choices = Inr a
        \<and> a = of_int z / 10 ^ 4
        \<and> \<bar>a - real (sum_bools choices) / real (length choices)\<bar> \<le> 1 / 20000)
     \<and> ((\<forall>b\<in>set choices. b) \<longrightarrow> accuracy choices = Inr 1)
     \<and> ((\<forall>b\<in>set choices. \<not> b) \<longrightarrow> accuracy choices = Inr 0)"
proof (intro conjI impI)
  assume ne: "choices \<noteq> []"
  let ?m = "real (sum_bools choices) / real (length choices)"
  have "accuracy choices = Inr (py_round ?m 4)"
    using ne by (simp add: accuracy_def)
  moreover have "py_round ?m 4 = of_int (round_half_even (?m * 10 ^ 4)) / 10 ^ 4"
    by (simp add: py_round_def)
  moreover have "\<bar>py_round ?m 4 - ?m\<bar> \<le> 1 / 20000"
    using py_round_close [of ?m 4] by simp
  ultimately show "\<exists>a z. accuracy choices = Inr a
        \<and> a = of_int z / 10 ^ 4 \<and> \<bar>a - ?m\<bar> \<le> 1 / 20000"
    by blast
next
  assume ne: "choices \<noteq> []" and all: "\<forall>b\<in>set choices. b"
  have "real (sum_bools choices) / real (length choices) = of_int 1"
    using ne sum_bools_all_True [OF all] by simp
  then have "py_round (real (sum_bools choices) / real (length choices)) 4 = 1"
    using py_round_int [of 1 4] by (simp only: of_int_1)
  then show "accuracy choices = Inr 1"
    using ne by (simp add: accuracy_def)
next
  assume ne: "choices \<noteq> []" and none: "\<forall>b\<in>set choices. \<not> b"
  have "real (sum_bools choices) / real (length choices) = of_int 0"
    using sum_bools_all_False [OF none] by simp
  then have "py_round (real (sum_bools choices) / real (length choices)) 4 = 0"
    using py_round_int [of 0 4] by (simp only: of_int_0)
  then show "accuracy choices = Inr 0"
    using ne by (simp add: accuracy_def)
qed

text \<open>
  The theorem at the vector \<open>[True, True, False]\<close>, whose mean \<open>2/3\<close> rounds to \<open>0.6667\<close>,
  and at the two uniform vectors of length 2.
\<close>

theorem accuracy_is_rounded_mean_witness:
  "[True, True, False] \<noteq> []
   \<and> accuracy [True, True, False] = Inr (6667 / 10000)
   \<and> accuracy [True, True] = Inr 1
   \<and> accuracy [False, False] = Inr 0"
proof -
  have a: "accuracy [True, True, False] = Inr (6667 / 10000)"
  proof -
    have ne: "[True, True, False] \<noteq> []" by simp
    from accuracy_is_rounded_mean [OF ne, THEN conjunct1]
    obtain x z where x: "accuracy [True, True, False] = Inr x" "x = of_int z / 10 ^ 4"
      "\<bar>x - real (sum_bools [True, True, False]) / real (length [True, True, False])\<bar>
         \<le> 1 / 20000"
      by blast
    have m: "real (sum_bools [True, True, False]) / real (length [True, True, False]) = 2 / 3"
      by (simp add: sum_bools_def)
    have xz: "real_of_int z = x * 10000" using x(2) by simp
    have "\<bar>x - 2 / 3\<bar> \<le> 1 / 20000" using x(3) unfolding m .
    then have "6666 < x * 10000" "x * 10000 < 6668"
      unfolding abs_le_iff by linarith+
    then have "6666 < real_of_int z" "real_of_int z < 6668"
      unfolding xz by simp_all
    then have "6666 < z" "z < 6668" by linarith+
    then have "z = 6667" by linarith
    then show ?thesis using x(1,2) by simp
  qed
  have b: "accuracy [True, True] = Inr 1"
    using accuracy_is_rounded_mean [of "[True, True]", THEN conjunct2, THEN conjunct1] by simp
  have c: "accuracy [False, False] = Inr 0"
    using accuracy_is_rounded_mean [of "[False, False]", THEN conjunct2, THEN conjunct2] by simp
  show ?thesis using a b c by simp
qed

section \<open>The empty triplet list\<close>

text \<open>
  Claim C2, as stated, fails: on a triplet list of length 0 the run does not end with
  \<open>InvalidInput\<close>. \<open>get_predictions\<close> returns two empty lists and \<open>accuracy\<close> divides by
  their length, so the run ends with the \<open>ZeroDivisionError\<close> of that division.
\<close>

theorem empty_triplets_counterexample:
  "score_model ''m'' [[1, 0], [1, 0], [0, 1]] [] \<noteq> Inl InvalidInput
   \<and> score_model ''m'' [[1, 0], [1, 0], [0, 1]] [] = Inl ZeroDivisionError"
  by (simp add: score_model_def get_predictions_def accuracy_def)

text \<open>
  Claim C2, amended. On a triplet list of length 0, for every feature matrix,
  \<open>get_predictions\<close> succeeds with no choices and no confidences, and the run fails in
  \<open>accuracy\<close> with the \<open>ZeroDivisionError\<close> of dividing by the number of choices.
\<close>

theorem empty_triplets_zero_division:
  "get_predictions F [] = Inr ([], [])
   \<and> accuracy [] = Inl ZeroDivisionError
   \<and> score_model model_name F [] = Inl ZeroDivisionError"
  by (simp add: score_model_def get_predictions_def accuracy_def)

section \<open>The loop of the scorer\<close>


lemma row_in_bounds: "in_bounds F i \<Longrightarrow> row F i = Inr (the_row F i)"
  by (auto simp: in_bounds_def row_def the_row_def Let_def)

lemma row_out_of_bounds: "\<not> in_bounds F i \<Longrightarrow> row F i = Inl IndexError"
  by (auto simp: in_bounds_def row_def Let_def)

lemma row_cases: "row F i = (if in_bounds F i then Inr (the_row F i) else Inl IndexError)"
  by (simp add: row_in_bounds row_out_of_bounds)

lemma argmax3:
  "argmax [a, b, c] = (if a < b then (if b < c then 2 else 1) else (if a < c then 2 else 0))"
  by (simp add: argmax_def)

lemma ooo_idx_pairs:
  "ooo_idx (pairs ! 0) = 2" "ooo_idx (pairs ! 1) = 1" "ooo_idx (pairs ! 2) = 0"
  "ooo_idx (pairs ! Suc 0) = 1"
  by (simp_all add: ooo_idx_def difference_def indices_def pairs_def)

lemma difference_pairs:
  "difference indices (pairs ! 0) = [2]" "difference indices (pairs ! 1) = [1]"
  "difference indices (pairs ! 2) = [0]"
  by (simp_all add: difference_def indices_def pairs_def)

lemma similarities_of_eq:
  "similarities_of F (i, j, k) =
     [cosine_similarity (the_row F i) (the_row F j),
      cosine_similarity (the_row F i) (the_row F k),
      cosine_similarity (the_row F j) (the_row F k)]"
  by (simp add: similarities_of_def compute_similarities_def pairs_def)

lemma predictions_loop_step:
  "triplet_in_bounds F t \<Longrightarrow>
   predictions_loop F (t # ts) choices probas =
     predictions_loop F ts (choices @ [predicted_ooo F t = 2]) (probas @ [softmax (similarities_of F t)])"
  by (cases t) (simp add: triplet_in_bounds_def row_in_bounds predicted_ooo_def similarities_of_def Let_def)

lemma predictions_loop_fail:
  "\<not> triplet_in_bounds F t \<Longrightarrow> predictions_loop F (t # ts) choices probas = Inl IndexError"
  by (cases t) (auto simp: triplet_in_bounds_def row_cases)

lemma predictions_loop_ok:
  "\<forall>t\<in>set ts. triplet_in_bounds F t \<Longrightarrow>
   predictions_loop F ts choices probas =
     Inr (choices @ map (\<lambda>t. predicted_ooo F t = 2) ts,
          probas @ map (\<lambda>t. softmax (similarities_of F t)) ts)"
proof (induction ts arbitrary: choices probas)
  case Nil
  then show ?case by simp
next
  case (Cons t ts)
  then show ?case by (simp add: predictions_loop_step del: predictions_loop.simps)
qed

lemma predictions_loop_error:
  "\<exists>t\<in>set ts. \<not> triplet_in_bounds F t \<Longrightarrow> predictions_loop F ts choices probas = Inl IndexError"
proof (induction ts arbitrary: choices probas)
  case Nil
  then show ?case by simp
next
  case (Cons t ts)
  show ?case
  proof (cases "triplet_in_bounds F t")
    case True
    with Cons.prems have "\<exists>t\<in>set ts. \<not> triplet_in_bounds F t" by auto
    then show ?thesis
      using Cons.IH True by (simp add: predictions_loop_step del: predictions_loop.simps)
  next
    case False
    then show ?thesis by (rule predictions_loop_fail)
  qed
qed

lemma get_predictions_ok:
  "\<forall>t\<in>set ts. triplet_in_bounds F t \<Longrightarrow>
   get_predictions F ts =
     Inr (map (\<lambda>t. predicted_ooo F t = 2) ts, map (\<lambda>t. softmax (similarities_of F t)) ts)"
  by (simp add: get_predictions_def predictions_loop_ok)

lemma get_predictions_error:
  "\<exists>t\<in>set ts. \<not> triplet_in_bounds F t \<Longrightarrow> get_predictions F ts = Inl IndexError"
  by (simp add: get_predictions_def predictions_loop_error)

lemma argmax3_props:
  assumes "sims = [a, b, c]"
  shows "argmax sims < 3" "\<forall>l<3. sims ! l \<le> sims ! argmax sims"
    "\<forall>l<argmax sims. sims ! l < sims ! argmax sims"
  using assms by (auto simp: argmax3 less_Suc_eq numeral_3_eq_3 numeral_2_eq_2)

lemma nth_pairs_fst_snd:
  "m < 3 \<Longrightarrow> ooo_idx (pairs ! m) < 3 \<and> ooo_idx (pairs ! m) \<noteq> fst (pairs ! m)
     \<and> ooo_idx (pairs ! m) \<noteq> snd (pairs ! m)"
  by (auto simp: less_Suc_eq numeral_3_eq_3 ooo_idx_def difference_def indices_def pairs_def)

lemma cos_ex: "cosine_similarity [1, 0] [1, 0] = 1" "cosine_similarity [1, 0] [0, 1] = 0"
  "cosine_similarity [0, 1] [1, 0] = 0" "cosine_similarity [0, 1] [0, 1] = 1"
  by (simp_all add: cosine_similarity_def dot_def l2_norm_def eps_def)

lemma cos_ex2: "cosine_similarity [1, 0] [- 1, 0] = - 1" "cosine_similarity [1, 0] [0, 0] = 0"
  "cosine_similarity [- 1, 0] [0, 0] = 0" "cosine_similarity [1, 0] [2, 0] = 1"
  "cosine_similarity [2, 0] [1, 0] = 1"
  by (simp_all add: cosine_similarity_def dot_def l2_norm_def eps_def)

section \<open>Scoring a triplet\<close>

text \<open>
  Claim C1. For every feature matrix and every list of triplets whose indices select rows
  of it, \<open>get_predictions\<close> returns one correctness value and one confidence vector per
  triplet. For the triplet \<open>(i, j, k)\<close> with rows \<open>a\<close>, \<open>b\<close>, \<open>c\<close> the similarities are those of
  the pairs \<open>(0,1)\<close>, \<open>(0,2)\<close>, \<open>(1,2)\<close> of positions; some pair \<open>pairs ! m\<close> has maximal
  similarity, the predicted odd-one-out \<open>ooo\<close> is the position in neither component of that
  pair, and the recorded correctness is \<open>ooo = 2\<close>.
\<close>


theorem get_predictions_odd_one_out:
  assumes "\<forall>t\<in>set ts. triplet_in_bounds F t"
  shows "\<exists>choices probas. get_predictions F ts = Inr (choices, probas)
     \<and> length choices = length ts \<and> length probas = length ts
     \<and> (\<forall>n<length ts. case ts ! n of (i, j, k) \<Rightarrow>
          (\<exists>a b c m ooo. row F i = Inr a \<and> row F j = Inr b \<and> row F k = Inr c
             \<and> m < 3 \<and> ooo < 3
             \<and> (\<forall>l<3. [cosine_similarity a b, cosine_similarity a c, cosine_similarity b c] ! l
                       \<le> [cosine_similarity a b, cosine_similarity a c, cosine_similarity b c] ! m)
             \<and> ooo \<noteq> fst (pairs ! m) \<and> ooo \<noteq> snd (pairs ! m)
             \<and> choices ! n = (ooo = 2)
             \<and> probas ! n = softmax [cosine_similarity a b, cosine_similarity a c, cosine_similarity b c]))"
proof (intro exI conjI allI impI)
  show "get_predictions F ts =
      Inr (map (\<lambda>t. predicted_ooo F t = 2) ts, map (\<lambda>t. softmax (similarities_of F t)) ts)"
    using assms by (rule get_predictions_ok)
  show "length (map (\<lambda>t. predicted_ooo F t = 2) ts) = length ts" by simp
  show "length (map (\<lambda>t. softmax (similarities_of F t)) ts) = length ts" by simp
next
  fix n assume n: "n < length ts"
  obtain i j k where t: "ts ! n = (i, j, k)" by (cases "ts ! n")
  let ?a = "the_row F i" and ?b = "the_row F j" and ?c = "the_row F k"
  let ?sims = "[cosine_similarity ?a ?b, cosine_similarity ?a ?c, cosine_similarity ?b ?c]"
  let ?m = "argmax ?sims"
  from n assms t have b: "in_bounds F i" "in_bounds F j" "in_bounds F k"
    using nth_mem [OF n] by (auto simp: triplet_in_bounds_def)
  have s: "similarities_of F (ts ! n) = ?sims"
    by (simp add: t similarities_of_eq)
  have m: "?m < 3" "\<forall>l<3. ?sims ! l \<le> ?sims ! ?m"
    using argmax3_props [OF refl] by blast+
  have "row F i = Inr ?a \<and> row F j = Inr ?b \<and> row F k = Inr ?c
      \<and> ?m < 3 \<and> ooo_idx (pairs ! ?m) < 3 \<and> (\<forall>l<3. ?sims ! l \<le> ?sims ! ?m)
      \<and> ooo_idx (pairs ! ?m) \<noteq> fst (pairs ! ?m) \<and> ooo_idx (pairs ! ?m) \<noteq> snd (pairs ! ?m)
      \<and> map (\<lambda>t. predicted_ooo F t = 2) ts ! n = (ooo_idx (pairs ! ?m) = 2)
      \<and> map (\<lambda>t. softmax (similarities_of F t)) ts ! n = softmax ?sims"
    using b m nth_pairs_fst_snd [OF m(1)] n s
    by (simp add: row_in_bounds predicted_ooo_def)
  then show "case ts ! n of (i, j, k) \<Rightarrow>
          (\<exists>a b c m ooo. row F i = Inr a \<and> row F j = Inr b \<and> row F k = Inr c
             \<and> m < 3 \<and> ooo < 3
             \<and> (\<forall>l<3. [cosine_similarity a b, cosine_similarity a c, cosine_similarity b c] ! l
                       \<le> [cosine_similarity a b, cosine_similarity a c, cosine_similarity b c] ! m)
             \<and> ooo \<noteq> fst (pairs ! m) \<and> ooo \<noteq> snd (pairs ! m)
             \<and> map (\<lambda>t. predicted_ooo F t = 2) ts ! n = (ooo = 2)
             \<and> map (\<lambda>t. softmax (similarities_of F t)) ts ! n
                 = softmax [cosine_similarity a b, cosine_similarity a c, cosine_similarity b c])"
    unfolding t by (simp only: prod.case) blast
qed

text \<open>
  The theorem on a matrix of three rows and two triplets: in the first the pair \<open>(1,2)\<close>
  is the most similar and position \<open>0\<close> is predicted, in the second the pair \<open>(0,1)\<close> is
  and position \<open>2\<close> is predicted.
\<close>


theorem get_predictions_odd_one_out_witness:
  "get_predictions [[1, 0], [0, 1], [0, 1]] [(0, 1, 2), (1, 2, 0)]
     = Inr ([False, True], [softmax [0, 0, 1], softmax [1, 0, 0]])"
proof -
  have "\<forall>t\<in>set [(0, 1, 2), (1, 2, 0)]. triplet_in_bounds [[1, 0], [0, 1], [0, 1]] t"
    by (simp add: triplet_in_bounds_def in_bounds_def)
  from get_predictions_odd_one_out [OF this]
  obtain choices probas where
    "get_predictions [[1, 0], [0, 1], [0, 1]] [(0, 1, 2), (1, 2, 0)] = Inr (choices, probas)"
    by blast
  then show ?thesis
    by (simp add: get_predictions_def row_def compute_similarities_def pairs_def cos_ex
        argmax_def ooo_idx_def difference_def indices_def)
qed

section \<open>Ties between pairs\<close>

text \<open>
  Claim C10. For triplets whose indices select rows of the matrix, the pair the scorer
  selects is \<open>pairs ! argmax similarities\<close>, where \<open>argmax\<close> is the first index of maximal
  similarity: every similarity is at most the selected one and every earlier one is
  strictly smaller. Exactly one position is left outside the selected pair, and it is the
  predicted odd-one-out. When the three similarities are equal the pair \<open>(0,1)\<close> is
  selected, position \<open>2\<close> is predicted and the recorded correctness is \<open>True\<close>.
\<close>


theorem first_maximal_pair_wins:
  assumes "\<forall>t\<in>set ts. triplet_in_bounds F t"
  shows "get_predictions F ts =
      Inr (map (\<lambda>t. predicted_ooo F t = 2) ts, map (\<lambda>t. softmax (similarities_of F t)) ts)
    \<and> (\<forall>t\<in>set ts.
         length (similarities_of F t) = 3
         \<and> argmax (similarities_of F t) < 3
         \<and> (\<forall>l<3. similarities_of F t ! l \<le> similarities_of F t ! argmax (similarities_of F t))
         \<and> (\<forall>l<argmax (similarities_of F t).
               similarities_of F t ! l < similarities_of F t ! argmax (similarities_of F t))
         \<and> difference indices (pairs ! argmax (similarities_of F t)) = [predicted_ooo F t]
         \<and> (similarities_of F t ! 0 = similarities_of F t ! 1
              \<and> similarities_of F t ! 1 = similarities_of F t ! 2
            \<longrightarrow> argmax (similarities_of F t) = 0 \<and> predicted_ooo F t = 2))"
proof (intro conjI ballI impI)
  show "get_predictions F ts =
      Inr (map (\<lambda>t. predicted_ooo F t = 2) ts, map (\<lambda>t. softmax (similarities_of F t)) ts)"
    using assms by (rule get_predictions_ok)
next
  fix t assume "t \<in> set ts"
  obtain i j k where t: "t = (i, j, k)" by (cases t)
  obtain a b c where s: "similarities_of F t = [a, b, c]"
    unfolding t similarities_of_eq by blast
  show "length (similarities_of F t) = 3" by (simp add: s)
  show "argmax (similarities_of F t) < 3" using argmax3_props(1) [OF s] .
  show "\<forall>l<3. similarities_of F t ! l \<le> similarities_of F t ! argmax (similarities_of F t)"
    using argmax3_props(2) [OF s] .
  show "\<forall>l<argmax (similarities_of F t).
               similarities_of F t ! l < similarities_of F t ! argmax (similarities_of F t)"
    using argmax3_props(3) [OF s] .
  show "difference indices (pairs ! argmax (similarities_of F t)) = [predicted_ooo F t]"
    unfolding predicted_ooo_def ooo_idx_def s argmax3
    by (simp add: difference_def indices_def pairs_def)
  assume "similarities_of F t ! 0 = similarities_of F t ! 1
     \<and> similarities_of F t ! 1 = similarities_of F t ! 2"
  then have "a = b" "b = c" by (simp_all add: s)
  then have "argmax (similarities_of F t) = 0" by (simp add: s argmax3)
  then show "argmax (similarities_of F t) = 0" "predicted_ooo F t = 2"
    by (simp_all add: predicted_ooo_def ooo_idx_pairs)
qed

text \<open>
  The theorem on two triplets with ties: similarities \<open>(-1, 0, 0)\<close>, where the first of the
  two tied pairs, \<open>(0,2)\<close>, is selected, and \<open>(1, 1, 1)\<close>, where \<open>(0,1)\<close> is.
\<close>


theorem first_maximal_pair_wins_witness:
  "get_predictions [[1, 0], [- 1, 0], [0, 0], [2, 0], [1, 0]] [(0, 1, 2), (0, 3, 4)]
     = Inr ([False, True], [softmax [- 1, 0, 0], softmax [1, 1, 1]])
   \<and> argmax [- 1, 0, 0] = 1 \<and> argmax [1, 1, 1] = 0"
proof -
  let ?F = "[[1, 0], [- 1, 0], [0, 0], [2, 0], [1, 0]] :: features"
  have b: "\<forall>t\<in>set [(0, 1, 2), (0, 3, 4)]. triplet_in_bounds ?F t"
    by (simp add: triplet_in_bounds_def in_bounds_def)
  have s: "similarities_of ?F (0, 1, 2) = [- 1, 0, 0]" "similarities_of ?F (0, 3, 4) = [1, 1, 1]"
    by (simp_all add: similarities_of_eq the_row_def cos_ex cos_ex2)
  have "predicted_ooo ?F (0, 1, 2) = 1" "predicted_ooo ?F (0, 3, 4) = 2"
    by (simp_all add: predicted_ooo_def s argmax3 ooo_idx_pairs)
  then show ?thesis
    using first_maximal_pair_wins [OF b, THEN conjunct1] by (simp add: s argmax3)
qed

section \<open>Triplets with repeated or out-of-range indices\<close>

text \<open>
  Claim C3, as stated, fails: a triplet whose indices are not pairwise distinct is scored
  like any other. On a matrix of two rows the triplet \<open>(0, 0, 1)\<close> yields a prediction, not
  an error.
\<close>


theorem repeated_index_counterexample:
  "get_predictions [[1, 0], [0, 1]] [(0, 0, 1)] = Inr ([True], [softmax [1, 0, 0]])"
  by (simp add: get_predictions_def row_def compute_similarities_def pairs_def cos_ex
        argmax_def ooo_idx_def difference_def indices_def)

text \<open>
  Claim C3, amended. The scorer makes no check of its own on the triplets. For a matrix of
  \<open>N\<close> rows it fails exactly when some index of some triplet lies outside \<open>[-N, N)\<close>, with
  the \<open>IndexError\<close> of the row read; it never fails with \<open>InvalidInput\<close>. When every index
  lies in \<open>[-N, N)\<close>, whether or not the indices of a triplet are distinct, it returns one
  correctness value and one confidence vector per triplet.
\<close>


theorem get_predictions_checks_bounds_only:
  "(get_predictions F ts = Inl IndexError \<longleftrightarrow> (\<exists>t\<in>set ts. \<not> triplet_in_bounds F t))
   \<and> ((\<forall>t\<in>set ts. triplet_in_bounds F t) \<longrightarrow>
        (\<exists>choices probas. get_predictions F ts = Inr (choices, probas)
           \<and> length choices = length ts \<and> length probas = length ts))
   \<and> get_predictions F ts \<noteq> Inl InvalidInput"
proof (cases "\<forall>t\<in>set ts. triplet_in_bounds F t")
  case True
  then show ?thesis using get_predictions_ok [OF True] by auto
next
  case False
  then have "\<exists>t\<in>set ts. \<not> triplet_in_bounds F t" by blast
  from get_predictions_error [OF this] False show ?thesis by auto
qed

text \<open>
  The theorem on a matrix of two rows: a list whose second triplet holds the index \<open>2\<close>
  fails, and the triplet \<open>(1, 1, -2)\<close>, with a repeated and a negative index, is scored.
\<close>


theorem get_predictions_checks_bounds_only_witness:
  "get_predictions [[1, 0], [0, 1]] [(0, 0, 1), (0, 1, 2)] = Inl IndexError
   \<and> get_predictions [[1, 0], [0, 1]] [(1, 1, - 2)] = Inr ([True], [softmax [1, 0, 0]])"
proof -
  let ?F = "[[1, 0], [0, 1]] :: features"
  have "\<exists>t\<in>set [(0, 0, 1), (0, 1, 2)]. \<not> triplet_in_bounds ?F t"
    by (simp add: triplet_in_bounds_def in_bounds_def)
  then have a: "get_predictions ?F [(0, 0, 1), (0, 1, 2)] = Inl IndexError"
    using get_predictions_checks_bounds_only [of ?F "[(0, 0, 1), (0, 1, 2)]"] by blast
  have "\<forall>t\<in>set [(1, 1, - 2)]. triplet_in_bounds ?F t"
    by (simp add: triplet_in_bounds_def in_bounds_def)
  then obtain choices probas where
    "get_predictions ?F [(1, 1, - 2)] = Inr (choices, probas)"
    using get_predictions_checks_bounds_only [of ?F "[(1, 1, - 2)]"] by blast
  then have b: "get_predictions ?F [(1, 1, - 2)] = Inr ([True], [softmax [1, 0, 0]])"
    by (simp add: get_predictions_def row_def compute_similarities_def pairs_def cos_ex
        argmax_def ooo_idx_def difference_def indices_def)
  show ?thesis using a b by simp
qed

section \<open>Entropy of a confidence vector\<close>


lemma entropy_term_upper:
  fixes x :: real
  assumes "0 \<le> x"
  shows "- (if 0 < x then x * ln x else 0) \<le> x * ln 3 + 1 / 3 - x"
proof (cases "0 < x")
  case True
  have "ln (1 / (3 * x)) \<le> 1 / (3 * x) - 1"
    using True by (intro ln_le_minus_one) simp
  moreover have "ln (1 / (3 * x)) = - ln 3 - ln x"
    using True by (simp add: ln_div ln_mult)
  ultimately have "x * (- ln 3 - ln x) \<le> x * (1 / (3 * x) - 1)"
    using True by (simp add: mult_left_mono)
  also have "x * (1 / (3 * x) - 1) = 1 / 3 - x"
    using True by (simp add: field_simps)
  finally show ?thesis using True by (simp add: algebra_simps)
next
  case False
  with assms have "x = 0" by simp
  then show ?thesis by simp
qed

lemma entropy_term_lower:
  fixes x :: real
  assumes "0 \<le> x" "x \<le> 1"
  shows "0 \<le> - (if 0 < x then x * ln x else 0)"
proof (cases "0 < x")
  case True
  then have "ln x \<le> 0" using assms by simp
  then have "x * ln x \<le> 0" using True by (simp add: mult_le_0_iff)
  then show ?thesis using True by simp
next
  case False
  then show ?thesis by simp
qed

lemma entropy3:
  "entropy [a, b, c] = - (if 0 < a then a * ln a else 0) + - (if 0 < b then b * ln b else 0)
     + - (if 0 < c then c * ln c else 0)"
  by (simp add: entropy_def)

lemma distribution3_cases:
  assumes "distribution3 p"
  obtains a b c where "p = [a, b, c]" "0 \<le> a" "0 \<le> b" "0 \<le> c" "a + b + c = 1"
proof -
  from assms have l: "length p = 3" by (simp add: distribution3_def)
  then obtain a b c where p: "p = [a, b, c]"
    by (auto simp: length_Suc_conv numeral_3_eq_3)
  with assms show ?thesis
    by (intro that [of a b c]) (auto simp: distribution3_def)
qed

lemma entropy_bounds:
  assumes "distribution3 p"
  shows "0 \<le> entropy p" "entropy p \<le> ln 3"
proof -
  from assms obtain a b c where p: "p = [a, b, c]"
    and nn: "0 \<le> a" "0 \<le> b" "0 \<le> c" and s: "a + b + c = 1"
    by (rule distribution3_cases)
  have le1: "a \<le> 1" "b \<le> 1" "c \<le> 1" using nn s by linarith+
  show "0 \<le> entropy p"
    unfolding p entropy3
    using entropy_term_lower [OF nn(1) le1(1)] entropy_term_lower [OF nn(2) le1(2)]
      entropy_term_lower [OF nn(3) le1(3)] by linarith
  have "entropy p \<le> (a + b + c) * ln 3 + 1 - (a + b + c)"
    unfolding p entropy3
    using entropy_term_upper [OF nn(1)] entropy_term_upper [OF nn(2)] entropy_term_upper [OF nn(3)]
    by (simp add: algebra_simps)
  then show "entropy p \<le> ln 3" by (simp add: s)
qed

lemma entropy_term_plogp: "0 \<le> x \<Longrightarrow> (if 0 < x then x * ln x else 0) = plogp x"
  by (simp add: plogp_def)

lemma entropy_terms_plogp:
  "list_all (\<lambda>x. 0 \<le> x) p \<Longrightarrow> map (\<lambda>x. if 0 < x then x * ln x else 0) p = map plogp p"
  by (induction p) (simp_all add: entropy_term_plogp)

lemma entropy_eq_shannon:
  assumes "list_all (\<lambda>x. 0 \<le> x) p"
  shows "entropy p = shannon_entropy p"
proof -
  have "map (\<lambda>x. if 0 < x then x * ln x else 0) p = map plogp p"
    using assms by (rule entropy_terms_plogp)
  then show ?thesis unfolding entropy_def shannon_entropy_def by (rule arg_cong)
qed

lemma entropy_permutation: "mset q = mset p \<Longrightarrow> entropy q = entropy p"
proof -
  assume "mset q = mset p"
  then have "mset (map (\<lambda>x. if 0 < x then x * ln x else 0) q)
      = mset (map (\<lambda>x. if 0 < x then x * ln x else 0) p)"
    by simp
  then have "sum_mset (mset (map (\<lambda>x. if 0 < x then x * ln x else 0) q))
      = sum_mset (mset (map (\<lambda>x. if 0 < x then x * ln x else 0) p))"
    by (rule arg_cong)
  then have "sum_list (map (\<lambda>x. if 0 < x then x * ln x else 0) q)
      = sum_list (map (\<lambda>x. if 0 < x then x * ln x else 0) p)"
    by (simp only: sum_mset_sum_list)
  then show ?thesis by (simp only: entropy_def)
qed

text \<open>
  Claim C5. For every row \<open>p\<close> of three non-negative confidences that sum to 1, the entropy
  \<open>ventropy\<close> computes for the row is \<open>- \<Sum> p log p\<close> with \<open>0 log 0 = 0\<close>, lies in the closed
  interval \<open>[0, log 3]\<close>, and is the same for every permutation of the entries of the row.
\<close>


theorem ventropy_of_distributions:
  assumes "list_all distribution3 probabilities"
  shows "ventropy probabilities = map shannon_entropy probabilities
    \<and> list_all (\<lambda>h. 0 \<le> h \<and> h \<le> ln 3) (ventropy probabilities)
    \<and> (\<forall>permuted. list_all2 (\<lambda>q p. mset q = mset p) permuted probabilities
          \<longrightarrow> ventropy permuted = ventropy probabilities)"
proof (intro conjI allI impI)
  have "\<And>p. p \<in> set probabilities \<Longrightarrow> entropy p = shannon_entropy p"
    using assms by (auto simp: list_all_iff distribution3_def intro: entropy_eq_shannon)
  then show "ventropy probabilities = map shannon_entropy probabilities"
    by (simp add: ventropy_def)
  show "list_all (\<lambda>h. 0 \<le> h \<and> h \<le> ln 3) (ventropy probabilities)"
    using assms by (auto simp: list_all_iff ventropy_def entropy_bounds)
next
  fix permuted
  assume "list_all2 (\<lambda>q p. mset q = mset p) permuted probabilities"
  then have "map entropy permuted = map entropy probabilities"
  proof (induction rule: list_all2_induct)
    case Nil
    show ?case by simp
  next
    case (Cons q qs p ps)
    from Cons(1) have "entropy q = entropy p" by (rule entropy_permutation)
    with Cons(3) show ?case by simp
  qed
  then show "ventropy permuted = ventropy probabilities"
    by (simp add: ventropy_def)
qed

text \<open>
  The theorem on the rows \<open>(1/2, 1/2, 0)\<close> and \<open>(1, 0, 0)\<close>, of entropies \<open>log 2\<close> and \<open>0\<close>,
  and on a permutation of each.
\<close>


theorem ventropy_of_distributions_witness:
  "ventropy [[1 / 2, 1 / 2, 0], [1, 0, 0]] = [ln 2, 0]
   \<and> ventropy [[0, 1 / 2, 1 / 2], [0, 0, 1]] = ventropy [[1 / 2, 1 / 2, 0], [1, 0, 0]]
   \<and> ln 2 \<le> ln (3::real)"
proof -
  let ?P = "[[1 / 2, 1 / 2, 0], [1, 0, 0]] :: real list list"
  have d: "list_all distribution3 ?P"
    by (simp add: distribution3_def)
  note t = ventropy_of_distributions [OF d]
  have h: "ln (1 / 2 :: real) = - ln 2"
    by (simp add: ln_div)
  have a: "ventropy ?P = [ln 2, 0]"
    using t [THEN conjunct1] by (simp add: shannon_entropy_def plogp_def h)
  have "list_all2 (\<lambda>q p. mset q = mset p) [[0, 1 / 2, 1 / 2], [0, 0, 1]] ?P"
    by simp
  then have b: "ventropy [[0, 1 / 2, 1 / 2], [0, 0, 1]] = ventropy ?P"
    using t [THEN conjunct2, THEN conjunct2] by blast
  have c: "ln 2 \<le> ln (3::real)"
    using t [THEN conjunct2, THEN conjunct1] a by simp
  show ?thesis using a b c by simp
qed

section \<open>Bounds on the exponential and the logarithm\<close>


lemma exp_taylor_lower:
  fixes x :: real
  assumes "0 \<le> x"
  shows "(\<Sum>m<n. x ^ m / fact m) \<le> exp x"
proof -
  obtain t where t: "exp x = (\<Sum>m<n. x ^ m / fact m) + (exp t / fact n) * x ^ n"
    using Maclaurin_exp_le [of x n] by blast
  have "0 \<le> (exp t / fact n) * x ^ n"
    using assms by simp
  with t show ?thesis by linarith
qed

lemma exp_taylor_upper:
  fixes x :: real
  assumes "0 \<le> x" "x \<le> 1"
  shows "exp x \<le> (\<Sum>m<n. x ^ m / fact m) + 3 * x ^ n / fact n"
proof -
  obtain t where t: "\<bar>t\<bar> \<le> \<bar>x\<bar>"
    "exp x = (\<Sum>m<n. x ^ m / fact m) + (exp t / fact n) * x ^ n"
    using Maclaurin_exp_le [of x n] by blast
  have "t \<le> 1" using t(1) assms by linarith
  then have "exp t \<le> exp 1" by simp
  then have "exp t \<le> 3" using exp_le by linarith
  then have "exp t * x ^ n \<le> 3 * x ^ n"
    using assms by (intro mult_right_mono) simp_all
  then have "(exp t / fact n) * x ^ n \<le> 3 * x ^ n / fact n"
    by (simp add: divide_right_mono)
  with t(2) show ?thesis by linarith
qed

lemma sum10: "(\<Sum>m<10. (x::real) ^ m / fact m) =
   1 + x + x^2 / 2 + x^3 / 6 + x^4 / 24 + x^5 / 120 + x^6 / 720 + x^7 / 5040 + x^8 / 40320
     + x^9 / 362880"
  by (simp add: numeral_eq_Suc)

lemma sum8: "(\<Sum>m<8. (x::real) ^ m / fact m) =
   1 + x + x^2 / 2 + x^3 / 6 + x^4 / 24 + x^5 / 120 + x^6 / 720 + x^7 / 5040"
  by (simp add: numeral_eq_Suc)

lemma e_bounds: "271828 / 100000 < exp (1::real)" "exp (1::real) < 271829 / 100000"
proof -
  have "(\<Sum>m<10. (1::real) ^ m / fact m) \<le> exp 1"
    by (rule exp_taylor_lower) simp
  then show "271828 / 100000 < exp (1::real)"
    unfolding sum10 by simp
  have "exp (1::real) \<le> (\<Sum>m<10. (1::real) ^ m / fact m) + 3 * 1 ^ 10 / fact 10"
    by (rule exp_taylor_upper) simp_all
  then show "exp (1::real) < 271829 / 100000"
    unfolding sum10 by (simp add: fact_numeral)
qed

lemma exp_5514: "exp (5514 / 10000 :: real) < 173570 / 100000"
proof -
  have "exp (5514 / 10000 :: real)
     \<le> (\<Sum>m<8. (5514 / 10000 :: real) ^ m / fact m) + 3 * (5514 / 10000) ^ 8 / fact 8"
    by (rule exp_taylor_upper) simp_all
  moreover have "(\<Sum>m<8. (5514 / 10000 :: real) ^ m / fact m) + 3 * (5514 / 10000) ^ 8 / fact 8
     < 173570 / 100000"
    unfolding sum8 by (simp add: fact_numeral power_divide)
  ultimately show ?thesis by linarith
qed

lemma exp_5515: "173585 / 100000 < exp (5515 / 10000 :: real)"
proof -
  have "(\<Sum>m<8. (5515 / 10000 :: real) ^ m / fact m) \<le> exp (5515 / 10000)"
    by (rule exp_taylor_lower) simp
  moreover have "173585 / 100000 < (\<Sum>m<8. (5515 / 10000 :: real) ^ m / fact m)"
    unfolding sum8 by (simp add: power_divide)
  ultimately show ?thesis by linarith
qed

lemma ln_e_plus_2_bounds:
  "15514 / 10000 < ln (exp 1 + 2 :: real)" "ln (exp 1 + 2 :: real) < 15515 / 10000"
proof -
  have e: "0 < exp (1::real)" by simp
  have "exp (15514 / 10000 :: real) = exp 1 * exp (5514 / 10000)"
    by (simp flip: exp_add)
  also have "\<dots> < exp 1 * (173570 / 100000)"
    using exp_5514 e by (intro mult_strict_left_mono) simp_all
  also have "\<dots> < exp 1 + 2"
    using e_bounds(2) by simp
  finally have "ln (exp (15514 / 10000 :: real)) < ln (exp 1 + 2)"
    by (subst ln_less_cancel_iff) (simp_all add: add_pos_pos)
  then show "15514 / 10000 < ln (exp 1 + 2 :: real)" by simp
  have "exp (1::real) + 2 < exp 1 * (173585 / 100000)"
    using e_bounds(1) by simp
  also have "\<dots> < exp 1 * exp (5515 / 10000)"
    using exp_5515 e by (intro mult_strict_left_mono) simp_all
  also have "\<dots> = exp (15515 / 10000 :: real)"
    by (simp flip: exp_add)
  finally have "ln (exp 1 + 2 :: real) < ln (exp (15515 / 10000))"
    by (subst ln_less_cancel_iff) (simp_all add: add_pos_pos)
  then show "ln (exp 1 + 2 :: real) < 15515 / 10000" by simp
qed

lemma softmax_100: "softmax [1, 0, 0] = [exp 1 / (exp 1 + 2), 1 / (exp 1 + 2), 1 / (exp 1 + 2)]"
  by (simp add: softmax_def)

lemma p0_bounds:
  "57611 / 100000 < exp 1 / (exp 1 + 2 :: real)" "exp 1 / (exp 1 + 2 :: real) < 57612 / 100000"
proof -
  have p: "0 < exp (1::real) + 2" by (simp add: add_pos_pos)
  show "57611 / 100000 < exp 1 / (exp 1 + 2 :: real)"
    using e_bounds(1) p by (simp add: pos_less_divide_eq)
  show "exp 1 / (exp 1 + 2 :: real) < 57612 / 100000"
    using e_bounds(2) p by (simp add: pos_divide_less_eq)
qed

lemma p1_bounds:
  "21194 / 100000 < 1 / (exp 1 + 2 :: real)" "1 / (exp 1 + 2 :: real) < 21195 / 100000"
proof -
  have p: "0 < exp (1::real) + 2" by (simp add: add_pos_pos)
  show "21194 / 100000 < 1 / (exp 1 + 2 :: real)"
    using e_bounds(2) p by (simp add: pos_less_divide_eq)
  show "1 / (exp 1 + 2 :: real) < 21195 / 100000"
    using e_bounds(1) p by (simp add: pos_divide_less_eq)
qed

lemma entropy_softmax_algebra:
  fixes e l s :: real
  assumes "s \<noteq> 0" "s = e + 2"
  shows "- (e / s * (1 - l) + (1 / s * (- l) + 1 / s * (- l))) = l - e / s"
proof -
  have "- (e / s * (1 - l) + (1 / s * (- l) + 1 / s * (- l))) = (l * (e + 2) - e) / s"
    using assms(1) by (simp add: field_simps)
  also have "\<dots> = (l * s - e) / s" by (simp add: assms(2))
  also have "\<dots> = l - e / s" using assms(1) by (simp add: diff_divide_distrib)
  finally show ?thesis .
qed

lemma entropy_softmax_100:
  "entropy [exp 1 / (exp 1 + 2), 1 / (exp 1 + 2), 1 / (exp 1 + 2)]
     = ln (exp 1 + 2) - exp 1 / (exp 1 + 2)"
proof -
  let ?s = "exp 1 + 2 :: real"
  have p: "0 < ?s" by (simp add: add_pos_pos)
  have l0: "ln (exp 1 / ?s) = 1 - ln ?s"
    using p by (simp add: ln_div)
  have l1: "ln (1 / ?s) = - ln ?s"
    using p by (simp add: ln_div)
  have pos: "0 < exp 1 / ?s" "0 < 1 / ?s" using p by simp_all
  have "entropy [exp 1 / ?s, 1 / ?s, 1 / ?s]
      = - (exp 1 / ?s * ln (exp 1 / ?s) + (1 / ?s * ln (1 / ?s) + 1 / ?s * ln (1 / ?s)))"
    using pos by (simp add: entropy_def)
  also have "\<dots> = - (exp 1 / ?s * (1 - ln ?s) + (1 / ?s * (- ln ?s) + 1 / ?s * (- ln ?s)))"
    by (simp only: l0 l1)
  also have "\<dots> = ln ?s - exp 1 / ?s"
    using p by (intro entropy_softmax_algebra) simp_all
  finally show ?thesis .
qed

section \<open>The worked example\<close>

text \<open>
  Claim C6. On the feature matrix \<open>[[1,0],[1,0],[0,1]]\<close> with the single triplet
  \<open>(0, 1, 2)\<close> the cosine similarities of the pairs are \<open>(1, 0, 0)\<close>, the pair \<open>(0,1)\<close> is the
  most similar, position \<open>2\<close> is predicted and the correctness is \<open>True\<close>. The softmax
  confidences are \<open>(e / (e + 2), 1 / (e + 2), 1 / (e + 2))\<close>, between \<open>0.57611\<close> and
  \<open>0.57612\<close> for the first and between \<open>0.21194\<close> and \<open>0.21195\<close> for the other two, and the
  entropy \<open>log (e + 2) - e / (e + 2)\<close> lies between \<open>0.9752\<close> and \<open>0.9754\<close>: each value is
  within \<open>10\<^sup>-\<^sup>3\<close> of the \<open>0.576\<close>, \<open>0.212\<close> and \<open>0.976\<close> of the specification. The accuracy of
  the run is \<open>1\<close>.
\<close>


theorem worked_example:
  "similarities_of [[1, 0], [1, 0], [0, 1]] (0, 1, 2) = [1, 0, 0]
   \<and> pairs ! argmax [1, 0, 0] = (0, 1)
   \<and> predicted_ooo [[1, 0], [1, 0], [0, 1]] (0, 1, 2) = 2
   \<and> (\<exists>p0 p1 h.
        get_predictions [[1, 0], [1, 0], [0, 1]] [(0, 1, 2)] = Inr ([True], [[p0, p1, p1]])
        \<and> [p0, p1, p1] = softmax [1, 0, 0]
        \<and> ventropy [[p0, p1, p1]] = [h]
        \<and> score_model ''m'' [[1, 0], [1, 0], [0, 1]] [(0, 1, 2)]
            = Inr \<lparr>model = ''m'', summary_accuracy = 1, mean_entropy = h, entropies = [h]\<rparr>
        \<and> 57611 / 100000 < p0 \<and> p0 < 57612 / 100000
        \<and> 21194 / 100000 < p1 \<and> p1 < 21195 / 100000
        \<and> 9752 / 10000 < h \<and> h < 9754 / 10000
        \<and> \<bar>p0 - 576 / 1000\<bar> < 1 / 1000 \<and> \<bar>p1 - 212 / 1000\<bar> < 1 / 1000
        \<and> \<bar>h - 976 / 1000\<bar> < 1 / 1000)"
proof -
  let ?F = "[[1, 0], [1, 0], [0, 1]] :: features"
  let ?p0 = "exp 1 / (exp 1 + 2) :: real" and ?p1 = "1 / (exp 1 + 2) :: real"
  let ?h = "ln (exp 1 + 2) - exp 1 / (exp 1 + 2) :: real"
  have s: "similarities_of ?F (0, 1, 2) = [1, 0, 0]"
    by (simp add: similarities_of_eq the_row_def cos_ex)
  have a: "pairs ! argmax [1, 0, 0] = (0, 1)"
    by (simp add: argmax3 pairs_def)
  have o: "predicted_ooo ?F (0, 1, 2) = 2"
    by (simp add: predicted_ooo_def s argmax3 ooo_idx_pairs)
  have "\<forall>t\<in>set [(0, 1, 2)]. triplet_in_bounds ?F t"
    by (simp add: triplet_in_bounds_def in_bounds_def)
  from get_predictions_ok [OF this]
  have g: "get_predictions ?F [(0, 1, 2)] = Inr ([True], [[?p0, ?p1, ?p1]])"
    by (simp add: o s softmax_100)
  have v: "ventropy [[?p0, ?p1, ?p1]] = [?h]"
    by (simp add: ventropy_def entropy_softmax_100)
  have acc: "accuracy [True] = Inr 1"
    using py_round_int [of 1 4] by (simp add: accuracy_def sum_bools_def)
  have sc: "score_model ''m'' ?F [(0, 1, 2)]
      = Inr \<lparr>model = ''m'', summary_accuracy = 1, mean_entropy = ?h, entropies = [?h]\<rparr>"
    by (simp add: score_model_def g acc v tensor_mean_def)
  have hb: "9752 / 10000 < ?h" "?h < 9754 / 10000"
    using ln_e_plus_2_bounds p0_bounds by linarith+
  have ab: "\<bar>?p0 - 576 / 1000\<bar> < 1 / 1000" "\<bar>?p1 - 212 / 1000\<bar> < 1 / 1000"
    "\<bar>?h - 976 / 1000\<bar> < 1 / 1000"
    using p0_bounds p1_bounds hb unfolding abs_less_iff by linarith+
  show ?thesis
    apply (intro conjI s a o)
    apply (rule exI [of _ ?p0], rule exI [of _ ?p1], rule exI [of _ ?h])
    apply (intro conjI g v sc p0_bounds p1_bounds hb ab)
    apply (simp add: softmax_100)
    done
qed

section \<open>Two identical feature vectors\<close>









section \<open>Skipping a model on the transform path\<close>


lemma evaluate_model_skip:
  assumes "use_transforms a" "extract_features env (fst p) (snd p) i = Inr f"
    "\<not> has_lookups a T G p"
  shows "evaluate_model env a T G i p st
     = Inr (st\<lparr>warnings := warnings st @ [skip_warning a T p]\<rparr>)"
  using assms
  by (cases p) (auto simp: evaluate_model_def has_lookups_def skip_warning_def
      split: option.splits)

lemma evaluate_model_keep:
  assumes "use_transforms a" "extract_features env (fst p) (snd p) i = Inr f"
    "has_lookups a T G p" "\<forall>f. \<exists>r. perform_rsa env f = Inr r"
  shows "\<exists>st'. evaluate_model env a T G i p st = Inr st'
     \<and> map rsa_model (results st') = map rsa_model (results st) @ [fst p]
     \<and> warnings st' = warnings st"
proof -
  obtain m s where p: "p = (m, s)" by (cases p)
  from assms(3) obtain t g where l: "lookup3 T s m (module a) = Some t"
    "lookup3 G s m (module a) = Some g"
    by (auto simp: has_lookups_def p)
  obtain r where r: "perform_rsa env (apply_transform env f g t (transform_type a)) = Inr r"
    using assms(4) by blast
  show ?thesis
    using assms(1,2) l r by (simp add: evaluate_model_def p append_summary_def)
qed

lemma evaluate_loop_skips:
  assumes ut: "use_transforms a"
    and ex: "\<forall>p\<in>set ps. \<forall>i. \<exists>f. extract_features env (fst p) (snd p) i = Inr f"
    and rsa: "\<forall>f. \<exists>r. perform_rsa env f = Inr r"
  shows "\<exists>st'. evaluate_loop env a T G i ps st = Inr st'
     \<and> map rsa_model (results st')
         = map rsa_model (results st) @ map fst (filter (has_lookups a T G) ps)
     \<and> warnings st'
         = warnings st @ map (skip_warning a T) (filter (\<lambda>p. \<not> has_lookups a T G p) ps)"
  using ex
proof (induction ps arbitrary: i st)
  case Nil
  show ?case by simp
next
  case (Cons p ps)
  from Cons.prems obtain f where f: "extract_features env (fst p) (snd p) i = Inr f"
    by (meson list.set_intros(1))
  from Cons.prems have ex': "\<forall>p\<in>set ps. \<forall>i. \<exists>f. extract_features env (fst p) (snd p) i = Inr f"
    by simp
  show ?case
  proof (cases "has_lookups a T G p")
    case True
    from evaluate_model_keep [OF ut f True rsa, of st]
    obtain st1 where st1: "evaluate_model env a T G i p st = Inr st1"
      "map rsa_model (results st1) = map rsa_model (results st) @ [fst p]"
      "warnings st1 = warnings st"
      by blast
    from Cons.IH [OF ex', of "Suc i" st1] obtain st' where
      "evaluate_loop env a T G (Suc i) ps st1 = Inr st'"
      "map rsa_model (results st')
         = map rsa_model (results st1) @ map fst (filter (has_lookups a T G) ps)"
      "warnings st'
         = warnings st1 @ map (skip_warning a T) (filter (\<lambda>p. \<not> has_lookups a T G p) ps)"
      by blast
    then show ?thesis using True st1 by simp
  next
    case False
    let ?st1 = "st\<lparr>warnings := warnings st @ [skip_warning a T p]\<rparr>"
    have st1: "evaluate_model env a T G i p st = Inr ?st1"
      using ut f False by (rule evaluate_model_skip)
    from Cons.IH [OF ex', of "Suc i" ?st1] obtain st' where
      "evaluate_loop env a T G (Suc i) ps ?st1 = Inr st'"
      "map rsa_model (results st')
         = map rsa_model (results ?st1) @ map fst (filter (has_lookups a T G) ps)"
      "warnings st'
         = warnings ?st1 @ map (skip_warning a T) (filter (\<lambda>p. \<not> has_lookups a T G p) ps)"
      by blast
    then show ?thesis using False st1 by simp
  qed
qed

text \<open>
  Claim C9. On the transform path (\<^verbatim>\<open>--use_transforms\<close>), in a run whose extraction and RSA
  steps do not raise, the loop ends normally whatever keys are missing. The result records
  are, in order, those of the models for which both the transformation matrix and the
  THINGS embedding are found; every other model contributes no record and exactly one
  warning, naming it, and the models after it are evaluated as usual.
\<close>


theorem missing_lookup_skips_model:
  assumes "use_transforms a"
    and "\<forall>p\<in>set (zip names sources). \<forall>i. \<exists>f. extract_features env (fst p) (snd p) i = Inr f"
    and "\<forall>f. \<exists>r. perform_rsa env f = Inr r"
  shows "\<exists>st. evaluate env a transforms things_features names sources = Inr st
     \<and> map rsa_model (results st)
         = map fst (filter (has_lookups a transforms things_features) (zip names sources))
     \<and> warnings st
         = map (skip_warning a transforms)
             (filter (\<lambda>p. \<not> has_lookups a transforms things_features p) (zip names sources))"
  using evaluate_loop_skips [OF assms, of transforms things_features 0
      "\<lparr>results = [], warnings = [], model_features = Map.empty\<rparr>"]
  by (simp add: evaluate_def)

text \<open>
  The theorem on three models: \<open>b\<close> has no transformation matrix, \<open>c\<close> has one but no THINGS
  embedding, and \<open>a\<close>, which comes last, has both and is the only one with a record.
\<close>


theorem missing_lookup_skips_model_witness:
  "\<exists>st. evaluate
      \<lparr>extract_features = (\<lambda>m s i. Inr (length m) :: string + nat),
       apply_transform = (\<lambda>f g (t :: nat) ty. f + g + t),
       perform_rsa = (\<lambda>f. Inr f :: string + nat),
       get_family_name = (\<lambda>m. m)\<rparr>
      \<lparr>use_transforms = True, module = ''logits'', transform_type = ''without_norm'',
       dataset = ''things'', category = None\<rparr>
      [''timm'' \<mapsto> [''a'' \<mapsto> [''logits'' \<mapsto> 1], ''c'' \<mapsto> [''logits'' \<mapsto> 1]]]
      [''timm'' \<mapsto> [''a'' \<mapsto> [''logits'' \<mapsto> 2]]]
      [''b'', ''c'', ''a''] [''timm'', ''timm'', ''timm''] = Inr st
    \<and> map rsa_model (results st) = [''a'']
    \<and> warnings st = [Missing_transform ''b'', Missing_things_embedding ''c'']"
proof -
  define env :: "(string, nat, nat, nat) collaborators" where
    "env = \<lparr>extract_features = (\<lambda>m s i. Inr (length m)),
       apply_transform = (\<lambda>f g t ty. f + g + t),
       perform_rsa = (\<lambda>f. Inr f),
       get_family_name = (\<lambda>m. m)\<rparr>"
  define a where "a = \<lparr>use_transforms = True, module = ''logits'',
       transform_type = ''without_norm'', dataset = ''things'', category = None\<rparr>"
  define T :: "nat nested" where
    "T = [''timm'' \<mapsto> [''a'' \<mapsto> [''logits'' \<mapsto> 1], ''c'' \<mapsto> [''logits'' \<mapsto> 1]]]"
  define G :: "nat nested" where "G = [''timm'' \<mapsto> [''a'' \<mapsto> [''logits'' \<mapsto> 2]]]"
  define ps where "ps = zip [''b'', ''c'', ''a''] [''timm'', ''timm'', ''timm'']"
  have u: "use_transforms a" by (simp add: a_def)
  have e: "\<forall>p\<in>set (zip [''b'', ''c'', ''a''] [''timm'', ''timm'', ''timm'']).
      \<forall>i. \<exists>f. extract_features env (fst p) (snd p) i = Inr f"
    by (simp add: env_def)
  have r: "\<forall>f. \<exists>r. perform_rsa env f = Inr r" by (simp add: env_def)
  have h: "\<not> has_lookups a T G (''b'', ''timm'')" "\<not> has_lookups a T G (''c'', ''timm'')"
    "has_lookups a T G (''a'', ''timm'')"
    by (simp_all add: has_lookups_def lookup3_def a_def T_def G_def)
  have w: "skip_warning a T (''b'', ''timm'') = Missing_transform ''b''"
    "skip_warning a T (''c'', ''timm'') = Missing_things_embedding ''c''"
    by (simp_all add: skip_warning_def lookup3_def a_def T_def)
  have fl: "map fst (filter (has_lookups a T G)
      (zip [''b'', ''c'', ''a''] [''timm'', ''timm'', ''timm''])) = [''a'']"
    using h by simp
  have fn: "map (skip_warning a T) (filter (\<lambda>p. \<not> has_lookups a T G p)
      (zip [''b'', ''c'', ''a''] [''timm'', ''timm'', ''timm'']))
      = [Missing_transform ''b'', Missing_things_embedding ''c'']"
    using h w by simp
  have "\<exists>st. evaluate env a T G [''b'', ''c'', ''a''] [''timm'', ''timm'', ''timm''] = Inr st
    \<and> map rsa_model (results st) = [''a'']
    \<and> warnings st = [Missing_transform ''b'', Missing_things_embedding ''c'']"
    using missing_lookup_skips_model [OF u e r, of T G] unfolding fl fn .
  then show ?thesis unfolding env_def a_def T_def G_def .
qed

section \<open>The configurable similarity\<close>


lemma compute_similarities_with3:
  "compute_similarities_with d t pairs =
     [similarity d (t ! 0) (t ! 1), similarity d (t ! 0) (t ! 2), similarity d (t ! 1) (t ! 2)]"
  by (simp add: compute_similarities_with_def pairs_def)

lemma most_sim_pair_euclidean:
  "p \<in> set pairs \<Longrightarrow>
   pair_distance t (most_sim_pair_with ''euclidean'' t) \<le> pair_distance t p"
  unfolding most_sim_pair_with_def compute_similarities_with3 argmax3
  by (auto simp: pairs_def pair_distance_def similarity_def)

lemma euclidean_distance_1d: "euclidean_distance [a] [b] = \<bar>a - b\<bar>"
  by (simp add: euclidean_distance_def l2_norm_def dot_def)

text \<open>
  Claim C4. The distance used to predict the odd-one-out is an option of the layer
  evaluation: it is \<open>cosine\<close> when the option is not given, and \<open>cosine\<close> and \<open>euclidean\<close> are
  accepted. With \<open>cosine\<close> the similarities are those \<^verbatim>\<open>compute_similarities\<close> of
  \<^verbatim>\<open>main_eval.py\<close> computes. With \<open>euclidean\<close> the order of the similarities is the inverse
  of the order of the distances, and the pair selected as most similar is one of the three
  pairs whose Euclidean distance is the lowest.
\<close>


theorem distance_is_configurable:
  "parse_distance None = Some ''cosine''
   \<and> parse_distance (Some ''cosine'') = Some ''cosine''
   \<and> parse_distance (Some ''euclidean'') = Some ''euclidean''
   \<and> compute_similarities_with ''cosine'' t ps = compute_similarities t ps
   \<and> (similarity ''euclidean'' x y \<le> similarity ''euclidean'' u v
        \<longleftrightarrow> euclidean_distance u v \<le> euclidean_distance x y)
   \<and> most_sim_pair_with ''euclidean'' t \<in> set pairs
   \<and> (\<forall>p\<in>set pairs. pair_distance t (most_sim_pair_with ''euclidean'' t) \<le> pair_distance t p)"
proof (intro conjI ballI)
  show "parse_distance None = Some ''cosine''"
    "parse_distance (Some ''cosine'') = Some ''cosine''"
    "parse_distance (Some ''euclidean'') = Some ''euclidean''"
    by (simp_all add: parse_distance_def distance_default_def distance_choices_def)
  show "compute_similarities_with ''cosine'' t ps = compute_similarities t ps"
    by (simp add: compute_similarities_with_def compute_similarities_def similarity_def)
  show "similarity ''euclidean'' x y \<le> similarity ''euclidean'' u v
        \<longleftrightarrow> euclidean_distance u v \<le> euclidean_distance x y"
    by (simp add: similarity_def)
  show "most_sim_pair_with ''euclidean'' t \<in> set pairs"
    unfolding most_sim_pair_with_def compute_similarities_with3 argmax3
    by (simp add: pairs_def)
next
  fix p assume "p \<in> set pairs"
  then show "pair_distance t (most_sim_pair_with ''euclidean'' t) \<le> pair_distance t p"
    by (rule most_sim_pair_euclidean)
qed

text \<open>
  The theorem on the three one-dimensional vectors \<open>0\<close>, \<open>2\<close>, \<open>1\<close>: the distances of the
  pairs are \<open>2\<close>, \<open>1\<close>, \<open>1\<close> and \<open>euclidean\<close> selects the pair \<open>(0,2)\<close>, the first of lowest
  distance, where \<open>cosine\<close> selects \<open>(1,2)\<close>.
\<close>


theorem distance_is_configurable_witness:
  "most_sim_pair_with ''euclidean'' [[0], [2], [1]] = (0, 2)
   \<and> pair_distance [[0], [2], [1]] (0, 1) = 2
   \<and> pair_distance [[0], [2], [1]] (0, 2) = 1
   \<and> pair_distance [[0], [2], [1]] (1, 2) = 1
   \<and> most_sim_pair_with ''cosine'' [[0], [2], [1]] = (1, 2)"
proof -
  let ?t = "[[0], [2], [1]] :: vec list"
  have d: "pair_distance ?t (0, 1) = 2" "pair_distance ?t (0, 2) = 1" "pair_distance ?t (1, 2) = 1"
    by (simp_all add: pair_distance_def euclidean_distance_1d)
  have e: "most_sim_pair_with ''euclidean'' ?t = (0, 2)"
    unfolding most_sim_pair_with_def compute_similarities_with3 argmax3
    by (simp add: similarity_def euclidean_distance_1d pairs_def)
  have "compute_similarities_with ''cosine'' ?t pairs = compute_similarities ?t pairs"
    using distance_is_configurable [of ?t pairs] by blast
  then have c: "most_sim_pair_with ''cosine'' ?t = (1, 2)"
    unfolding most_sim_pair_with_def
    by (simp add: compute_similarities_def pairs_def argmax_def cosine_similarity_def
        l2_norm_def dot_def eps_def)
  show ?thesis using d e c by simp
qed

end
